theory Spec2Isabelle
  imports Main "HOL-Library.AList"
begin

section \<open>Python values used by \<open>mainapp.py\<close>\<close>

text \<open>
  A Python \<open>str\<close> is modelled as a \<^typ>\<open>string\<close>, one \<^typ>\<open>char\<close> per character of the
  Python string, so that \<open>len\<close> is \<^const>\<open>length\<close> and the slice \<open>s[:n]\<close> is
  \<^term>\<open>take n s\<close>. A \<open>bytes\<close> object is a list of 8-bit characters.
\<close>

type_synonym bytes = "char list"

subsection \<open>\<open>sanitize_filename\<close> (lines 108-120)\<close>

text \<open>
  \<open>str.replace(old, new)\<close> is only ever called with one-character arguments: every
  occurrence of the character \<open>old\<close> becomes \<open>new\<close>.
\<close>

definition replace :: "char \<Rightarrow> char \<Rightarrow> string \<Rightarrow> string" where
  "replace old new s = map (\<lambda>c. if c = old then new else c) s"

text \<open>The list of line 111: \<open>< > : " / \ | ? *\<close>, in that order.\<close>

definition invalid_chars :: "char list" where
  "invalid_chars =
     [CHR ''<'', CHR ''>'', CHR '':'', CHR 0x22, CHR ''/'', CHR 0x5C, CHR ''|'', CHR ''?'', CHR ''*'']"

definition sanitize_filename :: "string \<Rightarrow> string" where
  "sanitize_filename filename =
     (let filename = fold (\<lambda>char fn. replace char CHR ''_'' fn) invalid_chars filename
      in if length filename > 240 then take 240 filename else filename)"

text \<open>
  The sanitizer as the specification words it: each forbidden character becomes an
  underscore, and the result is cut to its first 240 characters.
\<close>

definition sanitize_spec :: "string \<Rightarrow> string" where
  "sanitize_spec nm = take 240 (map (\<lambda>c. if c \<in> set invalid_chars then CHR ''_'' else c) nm)"

subsection \<open>Exceptions\<close>

text \<open>
  Every exception the modelled code can meet is a subclass of Python's \<open>Exception\<close>, so
  an \<open>except Exception\<close> clause catches each of them; \<open>except json.JSONDecodeError\<close>
  catches only \<open>JSONDecodeError\<close>. A computation that may raise has type \<open>exn + 'a\<close>.
\<close>

datatype exn =
    OSError
  | APIError
  | JSONDecodeError
  | TypeError
  | AttributeError
  | KeyError string
  | FileNotFoundError string
  | FileExistsError string

definition then_do :: "exn + 'a \<Rightarrow> ('a \<Rightarrow> exn + 'b) \<Rightarrow> exn + 'b" where
  "then_do m f = (case m of Inl ex \<Rightarrow> Inl ex | Inr v \<Rightarrow> f v)"

definition try_except :: "exn + 'a \<Rightarrow> (exn \<Rightarrow> exn + 'a) \<Rightarrow> exn + 'a" where
  "try_except body handler = (case body of Inl ex \<Rightarrow> handler ex | Inr v \<Rightarrow> Inr v)"

subsection \<open>JSON values\<close>

text \<open>
  \<open>json.loads\<close> returns whatever value the text denotes: \<open>None\<close>, a \<open>bool\<close>, an \<open>int\<close>, a
  \<open>float\<close>, a \<open>str\<close>, a \<open>list\<close> or a \<open>dict\<close> with string keys. A finite \<open>float\<close> is
  \<open>Fraction m e\<close>, standing for \<open>m\<close> times two to the \<open>e\<close>. A \<open>dict\<close> is an association list
  in insertion order; a lookup finds the first pair with the key, and \<open>d[key] = v\<close>
  overwrites that pair or appends a new one.
\<close>

datatype number = Whole int | Fraction int int | NaN | Infinity | NegInfinity

datatype json =
    JNull
  | JBool bool
  | JNum number
  | JStr string
  | JArray "json list"
  | JObject "(string \<times> json) list"

text \<open>Truth value testing, as \<open>not x\<close> and \<open>if x\<close> do it.\<close>

fun nonzero :: "number \<Rightarrow> bool" where
  "nonzero (Whole i) = (i \<noteq> 0)"
| "nonzero (Fraction m e) = (m \<noteq> 0)"
| "nonzero NaN = True"
| "nonzero Infinity = True"
| "nonzero NegInfinity = True"

fun truthy :: "json \<Rightarrow> bool" where
  "truthy JNull = False"
| "truthy (JBool b) = b"
| "truthy (JNum n) = nonzero n"
| "truthy (JStr s) = (s \<noteq> [])"
| "truthy (JArray xs) = (xs \<noteq> [])"
| "truthy (JObject kv) = (kv \<noteq> [])"

text \<open>\<open>sub in s\<close> for two strings: \<open>sub\<close> occurs in \<open>s\<close> as a substring.\<close>

fun starts_with :: "string \<Rightarrow> string \<Rightarrow> bool" where
  "starts_with s [] = True"
| "starts_with [] (c # p) = False"
| "starts_with (x # s) (c # p) = (x = c \<and> starts_with s p)"

fun occurs_in :: "string \<Rightarrow> string \<Rightarrow> bool" where
  "occurs_in sub [] = (sub = [])"
| "occurs_in sub (x # s) = (starts_with (x # s) sub \<or> occurs_in sub s)"

text \<open>
  \<open>key in x\<close>, \<open>x[key]\<close>, \<open>x[key] = v\<close> and \<open>x.get(key, dflt)\<close> for a string \<open>key\<close>. Only a
  \<open>dict\<close> supports all four. A \<open>list\<close> and a \<open>str\<close> support \<open>in\<close> (an equal element, a
  substring) but raise \<open>TypeError\<close> on a string subscript; the other values raise
  \<open>TypeError\<close> on \<open>in\<close> as well. Nothing but a \<open>dict\<close> has a \<open>get\<close> method.
\<close>

fun contains :: "json \<Rightarrow> string \<Rightarrow> exn + bool" where
  "contains (JObject kv) key = Inr (case map_of kv key of None \<Rightarrow> False | Some v \<Rightarrow> True)"
| "contains (JArray xs) key = Inr (JStr key \<in> set xs)"
| "contains (JStr s) key = Inr (occurs_in key s)"
| "contains JNull key = Inl TypeError"
| "contains (JBool b) key = Inl TypeError"
| "contains (JNum n) key = Inl TypeError"

fun getitem :: "json \<Rightarrow> string \<Rightarrow> exn + json" where
  "getitem (JObject kv) key =
     (case map_of kv key of None \<Rightarrow> Inl (KeyError key) | Some v \<Rightarrow> Inr v)"
| "getitem JNull key = Inl TypeError"
| "getitem (JBool b) key = Inl TypeError"
| "getitem (JNum n) key = Inl TypeError"
| "getitem (JStr s) key = Inl TypeError"
| "getitem (JArray xs) key = Inl TypeError"

fun setitem :: "json \<Rightarrow> string \<Rightarrow> json \<Rightarrow> exn + json" where
  "setitem (JObject kv) key v = Inr (JObject (AList.update key v kv))"
| "setitem JNull key v = Inl TypeError"
| "setitem (JBool b) key v = Inl TypeError"
| "setitem (JNum n) key v = Inl TypeError"
| "setitem (JStr s) key v = Inl TypeError"
| "setitem (JArray xs) key v = Inl TypeError"

fun dict_get :: "json \<Rightarrow> string \<Rightarrow> json \<Rightarrow> exn + json" where
  "dict_get (JObject kv) key dflt =
     Inr (case map_of kv key of None \<Rightarrow> dflt | Some v \<Rightarrow> v)"
| "dict_get JNull key dflt = Inl AttributeError"
| "dict_get (JBool b) key dflt = Inl AttributeError"
| "dict_get (JNum n) key dflt = Inl AttributeError"
| "dict_get (JStr s) key dflt = Inl AttributeError"
| "dict_get (JArray xs) key dflt = Inl AttributeError"

text \<open>\<open>sep.join(xs)\<close>\<close>

fun join :: "string \<Rightarrow> string list \<Rightarrow> string" where
  "join sep [] = []"
| "join sep [x] = x"
| "join sep (x # y # ys) = x @ sep @ join sep (y # ys)"

subsection \<open>The Extractor: \<open>prompt_claude\<close> (lines 38-106)\<close>

text \<open>
  An uploaded file has a name, a buffer (\<open>getbuffer()\<close>, which cannot fail) and a
  \<open>read()\<close> that returns bytes or raises.
\<close>

record uploaded_file =
  name :: string
  getbuffer :: bytes
  read :: "exn + bytes"

text \<open>
  The world outside the program.
  \<^item> \<open>messages_create e n api_key pdf_data\<close> is the outcome of the \<open>n\<close>-th request of the
    batch to the hosted model (building the client, sending the request and reading
    \<open>message.content[0].text\<close>): the response text, or the exception raised.
  \<^item> \<open>json_loads\<close> is \<open>json.loads\<close> and \<open>b64encode\<close> is the base64 encoding followed by
    \<open>decode("utf-8")\<close>.
  \<^item> \<open>str_other\<close> is \<open>str\<close> on a value that is not a string, as an f-string applies it.
  \<^item> \<open>name_error path\<close> is the exception the file system raises for a path it refuses
    (a name too long in bytes, a NUL character), if it refuses it.
  \<^item> \<open>replaces\<close> tells whether renaming onto an existing file replaces it silently
    (POSIX) or raises \<open>FileExistsError\<close> (Windows).
\<close>

record env =
  b64encode :: "bytes \<Rightarrow> string"
  messages_create :: "nat \<Rightarrow> string \<Rightarrow> string \<Rightarrow> exn + string"
  json_loads :: "string \<Rightarrow> exn + json"
  str_other :: "json \<Rightarrow> string"
  name_error :: "string \<Rightarrow> exn option"
  replaces :: bool

text \<open>
  \<open>prompt_claude e pdf_file api_key n\<close> returns the outcome of the call and the number of
  requests sent to the service so far, \<open>n\<close> being that number before the call. Logging
  and the messages shown in the page are not modelled.
\<close>

definition prompt_claude ::
  "env \<Rightarrow> uploaded_file \<Rightarrow> string \<Rightarrow> nat \<Rightarrow> (exn + json) \<times> nat" where
  "prompt_claude e pdf_file api_key n =
     (case read pdf_file of
        Inl ex \<Rightarrow> (Inr (JObject []), n)
      | Inr pdf_bytes \<Rightarrow>
          (let pdf_data = b64encode e pdf_bytes
           in (try_except
                 (then_do (messages_create e n api_key pdf_data) (\<lambda>text.
                    try_except (json_loads e text)
                      (\<lambda>ex. case ex of JSONDecodeError \<Rightarrow> Inr (JObject []) | _ \<Rightarrow> Inl ex)))
                 (\<lambda>ex. Inr (JObject [])),
               Suc n)))"

subsection \<open>The batch: \<open>process_pdfs\<close> (lines 122-205)\<close>

text \<open>
  \<open>result_info["extracted_data"]\<close> holds a reference to the value that \<open>prompt_claude\<close>
  returned, not a copy: the values live in a store, a list indexed by address, and
  \<open>extracted_data\<close> is an address.
\<close>

record result_info =
  original_name :: string
  extracted_data :: nat
  new_name :: string
  status :: string

text \<open>
  The temporary directory maps a file name to the file's contents (names are compared
  exactly, as on a case-sensitive file system); the archive is the sequence of entries
  written to the \<open>ZipFile\<close>, oldest first.
\<close>

type_synonym directory = "string \<rightharpoonup> bytes"
type_synonym archive = "(string \<times> bytes) list"

record state =
  temp_dir :: directory
  zip_file :: archive
  results :: "result_info list"
  store :: "json list"
  api_calls :: nat

text \<open>
  \<open>open(path, "wb")\<close> followed by \<open>f.write(data)\<close> creates or replaces the file, unless the
  file system refuses the path.
\<close>

definition write_file :: "env \<Rightarrow> directory \<Rightarrow> string \<Rightarrow> bytes \<Rightarrow> exn + directory" where
  "write_file e dir path data =
     (case name_error e path of
        Some ex \<Rightarrow> Inl ex
      | None \<Rightarrow> Inr (dir(path \<mapsto> data)))"

text \<open>
  \<open>Path.rename\<close>: the file system may refuse the target path; the source must exist; an
  existing target other than the source itself is replaced where \<open>replaces\<close> holds, and
  raises \<open>FileExistsError\<close> where it does not.
\<close>

definition rename :: "env \<Rightarrow> directory \<Rightarrow> string \<Rightarrow> string \<Rightarrow> exn + directory" where
  "rename e dir src dst =
     (case name_error e dst of
        Some ex \<Rightarrow> Inl ex
      | None \<Rightarrow>
          (case dir src of
             None \<Rightarrow> Inl (FileNotFoundError src)
           | Some data \<Rightarrow>
               (case dir dst of
                  None \<Rightarrow> Inr ((dir(src := None))(dst \<mapsto> data))
                | Some old \<Rightarrow>
                    if replaces e then Inr ((dir(src := None))(dst \<mapsto> data))
                    else if src = dst then Inr dir
                    else Inl (FileExistsError dst))))"

text \<open>
  \<open>ZipFile.write(path, arcname=...)\<close> on an archive opened with mode \<open>'w'\<close> reads the file and
  appends an entry; an entry of the same name already in the archive stays where it is
  (the library only warns of the duplicate name). The entry is named \<open>arcname\<close> as given:
  a sanitized name holds no path separator to normalise.
\<close>

definition zip_write :: "archive \<Rightarrow> directory \<Rightarrow> string \<Rightarrow> string \<Rightarrow> exn + archive" where
  "zip_write z dir path arcname =
     (case dir path of
        None \<Rightarrow> Inl (FileNotFoundError path)
      | Some data \<Rightarrow> Inr (z @ [(arcname, data)]))"

definition required_fields :: "string list" where
  "required_fields = [''Customer'', ''Part Number'', ''Description'']"

text \<open>
  The condition of line 173, \<open>field not in extracted_data or not extracted_data[field]\<close>:
  the value is only looked up when the key is present.
\<close>

definition field_is_missing :: "json \<Rightarrow> string \<Rightarrow> exn + bool" where
  "field_is_missing d field =
     then_do (contains d field) (\<lambda>present.
       if present
       then then_do (getitem d field) (\<lambda>v. Inr (if truthy v then False else True))
       else Inr True)"

text \<open>The list comprehension of line 173, over the fields in order.\<close>

fun missing_fields_of :: "json \<Rightarrow> string list \<Rightarrow> exn + string list" where
  "missing_fields_of d [] = Inr []"
| "missing_fields_of d (field # rest) =
     then_do (field_is_missing d field) (\<lambda>missing.
     then_do (missing_fields_of d rest) (\<lambda>others.
       Inr (if missing then field # others else others)))"

text \<open>
  The loop of lines 178-179: \<open>extracted_data[field] = "Unknown"\<close> for each missing field,
  on the value at address \<open>r\<close> of the store.
\<close>

fun set_unknown :: "nat \<Rightarrow> string list \<Rightarrow> json list \<Rightarrow> exn + json list" where
  "set_unknown r [] st = Inr st"
| "set_unknown r (field # rest) st =
     then_do (setitem (st ! r) field (JStr ''Unknown'')) (\<lambda>v. set_unknown r rest (st[r := v]))"

text \<open>
  The f-string of line 182: each subscript raises \<open>KeyError\<close> on an absent key, and each
  value is formatted by \<open>str\<close>, which leaves a string as it is.
\<close>

definition format_value :: "env \<Rightarrow> json \<Rightarrow> string" where
  "format_value e v = (case v of JStr s \<Rightarrow> s | _ \<Rightarrow> str_other e v)"

definition format_filename :: "env \<Rightarrow> json \<Rightarrow> exn + string" where
  "format_filename e d =
     then_do (getitem d ''Part Number'') (\<lambda>part_number.
     then_do (getitem d ''Customer'') (\<lambda>customer.
     then_do (getitem d ''Description'') (\<lambda>description.
       Inr (format_value e part_number @ '' '' @ format_value e customer @ '' ''
              @ format_value e description @ ''.pdf''))))"

text \<open>
  One iteration of the loop of line 143, for one uploaded file. The progress bar, the log
  and the pause of line 158 are not modelled.
\<close>

definition loop_body :: "env \<Rightarrow> string \<Rightarrow> state \<Rightarrow> uploaded_file \<Rightarrow> exn + state" where
  "loop_body e api_key s uploaded_file =
     (let temp_file_path = name uploaded_file
      in then_do (write_file e (temp_dir s) temp_file_path (getbuffer uploaded_file)) (\<lambda>dir1.
         let (outcome, calls) = prompt_claude e uploaded_file api_key (api_calls s)
         in then_do outcome (\<lambda>returned.
         let extracted_data = length (store s);
             store1 = store s @ [returned];
             result_info = \<lparr>original_name = name uploaded_file,
                            extracted_data = extracted_data,
                            new_name = [], status = []\<rparr>
         in if truthy (store1 ! extracted_data)
            then
              then_do (missing_fields_of (store1 ! extracted_data) required_fields)
                (\<lambda>missing_fields.
              then_do (set_unknown extracted_data missing_fields store1) (\<lambda>store2.
              then_do (format_filename e (store2 ! extracted_data)) (\<lambda>new_filename.
              let new_filename = sanitize_filename new_filename
              in then_do (rename e dir1 temp_file_path new_filename) (\<lambda>dir2.
                 then_do (zip_write (zip_file s) dir2 new_filename new_filename) (\<lambda>zip2.
                   Inr (s\<lparr>temp_dir := dir2, zip_file := zip2,
                          results := results s
                            @ [result_info\<lparr>
                                 status :=
                                   (if missing_fields = [] then ''Success''
                                    else ''Partial success (missing: ''
                                         @ join '', '' missing_fields @ '')''),
                                 new_name := new_filename\<rparr>],
                          store := store2, api_calls := calls\<rparr>))))))
            else Inr (s\<lparr>temp_dir := dir1,
                        results := results s
                          @ [result_info\<lparr>status := ''Error: No data extracted''\<rparr>],
                        store := store1, api_calls := calls\<rparr>))))"

text \<open>The \<open>for\<close> loop: an exception raised in an iteration ends the batch.\<close>

fun for_loop :: "env \<Rightarrow> string \<Rightarrow> state \<Rightarrow> uploaded_file list \<Rightarrow> exn + state" where
  "for_loop e api_key s [] = Inr s"
| "for_loop e api_key s (uploaded_file # rest) =
     then_do (loop_body e api_key s uploaded_file) (\<lambda>s'. for_loop e api_key s' rest)"

definition initial_state :: state where
  "initial_state =
     \<lparr>temp_dir = Map.empty, zip_file = [], results = [], store = [], api_calls = 0\<rparr>"

text \<open>
  \<open>process_pdfs\<close> returns \<open>None\<close> for an empty upload, and otherwise the archive and the
  results; the store is returned with them, to read the values the results refer to.
\<close>

definition process_pdfs ::
  "env \<Rightarrow> uploaded_file list \<Rightarrow> string \<Rightarrow> exn + (archive \<times> result_info list \<times> json list) option"
  where
  "process_pdfs e uploaded_files api_key =
     (if uploaded_files = [] then Inr None
      else then_do (for_loop e api_key initial_state uploaded_files)
             (\<lambda>s. Inr (Some (zip_file s, results s, store s))))"

subsection \<open>The result table (lines 285-294)\<close>

record table_row =
  Original_Filename :: string
  New_Filename :: string
  Status :: string
  Customer :: json
  Part_Number :: json
  Description :: json

definition table_row_of :: "json list \<Rightarrow> result_info \<Rightarrow> exn + table_row" where
  "table_row_of st result =
     then_do (dict_get (st ! extracted_data result) ''Customer'' (JStr [])) (\<lambda>customer.
     then_do (dict_get (st ! extracted_data result) ''Part Number'' (JStr [])) (\<lambda>part_number.
     then_do (dict_get (st ! extracted_data result) ''Description'' (JStr [])) (\<lambda>description.
       Inr \<lparr>Original_Filename = original_name result,
            New_Filename = (if new_name result = [] then ''N/A'' else new_name result),
            Status = status result,
            Customer = customer, Part_Number = part_number, Description = description\<rparr>)))"

fun results_data :: "json list \<Rightarrow> result_info list \<Rightarrow> exn + table_row list" where
  "results_data st [] = Inr []"
| "results_data st (result # rest) =
     then_do (table_row_of st result) (\<lambda>row.
     then_do (results_data st rest) (\<lambda>rows. Inr (row # rows)))"

subsection \<open>Notions used to state the properties\<close>

text \<open>
  The value that \<open>prompt_claude\<close> returns for one file when \<open>n\<close> requests have been sent,
  the values it returns for each file of a batch in turn, and the number of requests sent
  once the batch is through.
\<close>

definition extracted :: "env \<Rightarrow> string \<Rightarrow> nat \<Rightarrow> uploaded_file \<Rightarrow> json" where
  "extracted e api_key n pdf_file =
     (case fst (prompt_claude e pdf_file api_key n) of Inl ex \<Rightarrow> JObject [] | Inr d \<Rightarrow> d)"

fun extractions :: "env \<Rightarrow> string \<Rightarrow> nat \<Rightarrow> uploaded_file list \<Rightarrow> json list" where
  "extractions e api_key n [] = []"
| "extractions e api_key n (pdf_file # rest) =
     extracted e api_key n pdf_file
       # extractions e api_key (snd (prompt_claude e pdf_file api_key n)) rest"

fun calls_after :: "env \<Rightarrow> string \<Rightarrow> nat \<Rightarrow> uploaded_file list \<Rightarrow> nat" where
  "calls_after e api_key n [] = n"
| "calls_after e api_key n (pdf_file # rest) =
     calls_after e api_key (snd (prompt_claude e pdf_file api_key n)) rest"

text \<open>
  For a dictionary with the pairs \<open>kv\<close>: whether a field is missing (absent, or present
  with a value that tests false, such as the empty string), the pairs after lines 175-179,
  the text a field contributes to the file name, the new file name and the status.
\<close>

definition is_missing :: "(string \<times> json) list \<Rightarrow> string \<Rightarrow> bool" where
  "is_missing kv field =
     (case map_of kv field of None \<Rightarrow> True | Some v \<Rightarrow> if truthy v then False else True)"

definition fill_unknown :: "(string \<times> json) list \<Rightarrow> (string \<times> json) list" where
  "fill_unknown kv =
     fold (\<lambda>field kv'. AList.update field (JStr ''Unknown'') kv')
       (filter (is_missing kv) required_fields) kv"

definition field_value :: "env \<Rightarrow> (string \<times> json) list \<Rightarrow> string \<Rightarrow> string" where
  "field_value e kv field =
     (case map_of kv field of
        None \<Rightarrow> ''Unknown''
      | Some v \<Rightarrow> if truthy v then format_value e v else ''Unknown'')"

definition new_filename_of :: "env \<Rightarrow> (string \<times> json) list \<Rightarrow> string" where
  "new_filename_of e kv =
     sanitize_filename (field_value e kv ''Part Number'' @ '' '' @ field_value e kv ''Customer''
        @ '' '' @ field_value e kv ''Description'' @ ''.pdf'')"

definition status_of_dict :: "(string \<times> json) list \<Rightarrow> string" where
  "status_of_dict kv =
     (if filter (is_missing kv) required_fields = [] then ''Success''
      else ''Partial success (missing: ''
             @ join '', '' (filter (is_missing kv) required_fields) @ '')'')"

text \<open>
  What one iteration that does not raise makes of the value \<open>d\<close> returned for a file: the
  value left in the store, the result and the archive entries.
\<close>

definition the_dict :: "json \<Rightarrow> (string \<times> json) list" where
  "the_dict d = (case d of JObject kv \<Rightarrow> kv | _ \<Rightarrow> [])"

definition stored :: "json \<Rightarrow> json" where
  "stored d = (if truthy d then JObject (fill_unknown (the_dict d)) else d)"

definition result_for :: "env \<Rightarrow> uploaded_file \<Rightarrow> nat \<Rightarrow> json \<Rightarrow> result_info" where
  "result_for e f r d =
     \<lparr>original_name = name f, extracted_data = r,
      new_name = (if truthy d then new_filename_of e (the_dict d) else []),
      status = (if truthy d then status_of_dict (the_dict d)
                else ''Error: No data extracted'')\<rparr>"

definition entries_for :: "env \<Rightarrow> uploaded_file \<Rightarrow> json \<Rightarrow> archive" where
  "entries_for e f d =
     (if truthy d then [(new_filename_of e (the_dict d), getbuffer f)] else [])"

subsection \<open>An example run\<close>

text \<open>
  A service and a parser for six documents: two that name Acme's bracket PN-100, one whose
  response is the empty object, one with an empty description, and two listing the same
  fields in different orders. A seventh document is answered with a JSON array. Any other
  document gets a reply that is not JSON, and any key but \<open>sk-test\<close> is rejected. The file
  system refuses names longer than 255 characters and replaces on rename.
\<close>

definition acme_text :: string where
  \<open>acme_text = ''{"Customer": "Acme", "Part Number": "PN-100", "Description": "Bracket"}''\<close>

definition no_description_text :: string where
  \<open>no_description_text = ''{"Customer": "Acme", "Part Number": "PN-200", "Description": ""}''\<close>

definition reordered_text :: string where
  \<open>reordered_text = ''{"Description": "", "Part Number": "PN-7"}''\<close>

definition listed_text :: string where
  \<open>listed_text = ''{"Part Number": "PN-7", "Description": ""}''\<close>

definition array_text :: string where
  \<open>array_text = ''["Acme", "PN-100", "Bracket"]''\<close>

definition example_service :: "nat \<Rightarrow> string \<Rightarrow> string \<Rightarrow> exn + string" where
  "example_service n api_key pdf_data =
     (if api_key = ''sk-test''
      then (if pdf_data = ''%PDF job1'' then Inr acme_text
            else if pdf_data = ''%PDF job2'' then Inr ''{}''
            else if pdf_data = ''%PDF job3'' then Inr no_description_text
            else if pdf_data = ''%PDF job4'' then Inr acme_text
            else if pdf_data = ''%PDF job5'' then Inr reordered_text
            else if pdf_data = ''%PDF job6'' then Inr listed_text
            else if pdf_data = ''%PDF job7'' then Inr array_text
            else Inr ''I could not read this document.'')
      else Inl APIError)"

definition example_json_loads :: "string \<Rightarrow> exn + json" where
  "example_json_loads text =
     (if text = acme_text
      then Inr (JObject [(''Customer'', JStr ''Acme''), (''Part Number'', JStr ''PN-100''),
                         (''Description'', JStr ''Bracket'')])
      else if text = no_description_text
      then Inr (JObject [(''Customer'', JStr ''Acme''), (''Part Number'', JStr ''PN-200''),
                         (''Description'', JStr [])])
      else if text = reordered_text
      then Inr (JObject [(''Description'', JStr []), (''Part Number'', JStr ''PN-7'')])
      else if text = listed_text
      then Inr (JObject [(''Part Number'', JStr ''PN-7''), (''Description'', JStr [])])
      else if text = array_text
      then Inr (JArray [JStr ''Acme'', JStr ''PN-100'', JStr ''Bracket''])
      else if text = ''{}'' then Inr (JObject [])
      else Inl JSONDecodeError)"

definition example_env :: env where
  "example_env =
     \<lparr>b64encode = (\<lambda>pdf_bytes. pdf_bytes), messages_create = example_service,
      json_loads = example_json_loads, str_other = (\<lambda>v. ''?''),
      name_error = (\<lambda>path. if length path \<le> 255 then None else Some OSError),
      replaces = True\<rparr>"

definition pdf :: "string \<Rightarrow> bytes \<Rightarrow> uploaded_file" where
  "pdf file_name data = \<lparr>name = file_name, getbuffer = data, read = Inr data\<rparr>"

definition example_batch :: "uploaded_file list" where
  "example_batch =
     [pdf ''job1.pdf'' ''%PDF job1'', pdf ''job2.pdf'' ''%PDF job2'',
      pdf ''job3.pdf'' ''%PDF job3'', pdf ''job4.pdf'' ''%PDF job4'',
      pdf ''job5.pdf'' ''%PDF job5'', pdf ''job6.pdf'' ''%PDF job6'']"

section \<open>The filename sanitizer\<close>

lemma fold_replace_map:
  "CHR ''_'' \<notin> set cs \<Longrightarrow>
   fold (\<lambda>char fn. replace char CHR ''_'' fn) cs s =
   map (\<lambda>c. if c \<in> set cs then CHR ''_'' else c) s"
proof (induction cs arbitrary: s)
  case Nil
  show ?case by simp
next
  case (Cons a cs)
  from Cons.prems have a: "a \<noteq> CHR ''_''" and cs: "CHR ''_'' \<notin> set cs" by auto
  have "fold (\<lambda>char fn. replace char CHR ''_'' fn) (a # cs) s =
        map (\<lambda>c. if c \<in> set cs then CHR ''_'' else c) (replace a CHR ''_'' s)"
    by (simp add: Cons.IH [OF cs])
  also have "\<dots> = map (\<lambda>c. if c \<in> set (a # cs) then CHR ''_'' else c) s"
    using cs by (auto simp: replace_def)
  finally show ?case .
qed

lemma underscore_valid: "CHR ''_'' \<notin> set invalid_chars"
  by (simp add: invalid_chars_def)

lemma sanitize_filename_eq_spec: "sanitize_filename nm = sanitize_spec nm"
  by (simp add: sanitize_filename_def sanitize_spec_def Let_def
      fold_replace_map [OF underscore_valid])

lemma sanitize_spec_clean: "set (sanitize_spec nm) \<inter> set invalid_chars = {}"
proof -
  have "set (map (\<lambda>c. if c \<in> set invalid_chars then CHR ''_'' else c) nm)
          \<inter> set invalid_chars = {}"
    using underscore_valid by auto
  moreover have "set (sanitize_spec nm)
          \<subseteq> set (map (\<lambda>c. if c \<in> set invalid_chars then CHR ''_'' else c) nm)"
    unfolding sanitize_spec_def by (rule set_take_subset)
  ultimately show ?thesis by blast
qed

lemma sanitize_spec_length: "length (sanitize_spec nm) \<le> 240"
  by (simp add: sanitize_spec_def)

lemma sanitize_spec_fixed:
  assumes "set s \<inter> set invalid_chars = {}" and "length s \<le> 240"
  shows "sanitize_spec s = s"
proof -
  have "map (\<lambda>c. if c \<in> set invalid_chars then CHR ''_'' else c) s = s"
    using assms(1) by (induction s) auto
  then show ?thesis using assms(2) by (simp add: sanitize_spec_def)
qed

text \<open>
  Claim C5. For every string, the sanitized name contains none of the characters
  \<open>< > : " / \ | ? *\<close>, is at most 240 characters long, and is the first 240 characters of
  the input with each forbidden character replaced by an underscore.
\<close>

theorem sanitize_filename_clean_and_bounded:
  "set (sanitize_filename nm) \<inter> set invalid_chars = {}
   \<and> length (sanitize_filename nm) \<le> 240
   \<and> sanitize_filename nm
       = take 240 (map (\<lambda>c. if c \<in> set invalid_chars then CHR ''_'' else c) nm)"
  using sanitize_spec_clean [of nm] sanitize_spec_length [of nm]
  by (simp add: sanitize_filename_eq_spec) (simp add: sanitize_spec_def)

text \<open>The scenario of the specification: \<open>A/C:Unit\<close> becomes \<open>A_C_Unit\<close>.\<close>

theorem sanitize_filename_scenario:
  "sanitize_filename ''A/C:Unit'' = ''A_C_Unit''"
  using sanitize_filename_clean_and_bounded [of "''A/C:Unit''"]
  by (simp add: invalid_chars_def)

text \<open>
  Claim C9. Sanitizing is idempotent: a sanitized name is never longer than 240
  characters, and sanitizing it again returns it unchanged.
\<close>

theorem sanitize_filename_idempotent:
  "sanitize_filename (sanitize_filename nm) = sanitize_filename nm"
  using sanitize_spec_fixed [OF sanitize_spec_clean sanitize_spec_length, of nm]
  by (simp add: sanitize_filename_eq_spec)

section \<open>The Extractor\<close>

lemma prompt_claude_extracted:
  "prompt_claude e f k n = (Inr (extracted e k n f), snd (prompt_claude e f k n))"
  by (simp add: extracted_def prompt_claude_def try_except_def then_do_def Let_def
      split: sum.splits exn.splits)

text \<open>
  Claim C6. \<open>prompt_claude\<close> always returns and never raises: when the file cannot be
  read it returns the empty dictionary without calling the service; when the request
  raises, or the response text does not parse, it returns the empty dictionary; only a
  parsed response is returned as it is. It sends at most one request, the \<open>n\<close>-th, so
  nothing is retried.
\<close>

theorem prompt_claude_never_raises:
  "prompt_claude e pdf_file api_key n =
     (Inr (case read pdf_file of
             Inl ex \<Rightarrow> JObject []
           | Inr pdf_bytes \<Rightarrow>
               (case messages_create e n api_key (b64encode e pdf_bytes) of
                  Inl ex \<Rightarrow> JObject []
                | Inr text \<Rightarrow>
                    (case json_loads e text of
                       Inl ex \<Rightarrow> JObject []
                     | Inr result \<Rightarrow> result))),
      (case read pdf_file of Inl ex \<Rightarrow> n | Inr pdf_bytes \<Rightarrow> Suc n))"
  by (simp add: prompt_claude_def try_except_def then_do_def Let_def
      split: sum.splits exn.splits)

section \<open>One iteration of the loop\<close>

lemma field_is_missing_dict:
  "field_is_missing (JObject kv) field = Inr (is_missing kv field)"
  by (simp add: field_is_missing_def is_missing_def then_do_def split: option.splits)

lemma missing_fields_of_dict:
  "missing_fields_of (JObject kv) flds = Inr (filter (is_missing kv) flds)"
  by (induction flds) (simp_all add: field_is_missing_dict then_do_def)

lemma set_unknown_dict:
  "r < length st \<Longrightarrow> st ! r = JObject kv \<Longrightarrow>
   set_unknown r flds st
     = Inr (st[r := JObject (fold (\<lambda>field kv'. AList.update field (JStr ''Unknown'') kv')
                           flds kv)])"
proof (induction flds arbitrary: st kv)
  case Nil
  then show ?case by (metis fold_simps(1) list_update_id set_unknown.simps(1))
next
  case (Cons field flds)
  then show ?case by (simp add: then_do_def)
qed

lemma map_of_fold_update:
  "map_of (fold (\<lambda>field kv'. AList.update field v kv') ks kv) x
     = (if x \<in> set ks then Some v else map_of kv x)"
  by (induction ks arbitrary: kv) (auto simp: update_conv')

lemma map_of_fill_unknown:
  "map_of (fill_unknown kv) x
     = (if x \<in> set required_fields \<and> is_missing kv x then Some (JStr ''Unknown'')
        else map_of kv x)"
  by (simp add: fill_unknown_def map_of_fold_update)

lemma getitem_fill_unknown:
  "field \<in> set required_fields \<Longrightarrow>
   \<exists>v. getitem (JObject (fill_unknown kv)) field = Inr v
        \<and> format_value e v = field_value e kv field"
  by (auto simp: map_of_fill_unknown field_value_def is_missing_def format_value_def
      split: option.splits)

lemma format_filename_fill_unknown:
  "format_filename e (JObject (fill_unknown kv))
     = Inr (field_value e kv ''Part Number'' @ '' '' @ field_value e kv ''Customer''
              @ '' '' @ field_value e kv ''Description'' @ ''.pdf'')"
proof -
  obtain p c d where
    "getitem (JObject (fill_unknown kv)) ''Part Number'' = Inr p"
    "format_value e p = field_value e kv ''Part Number''"
    "getitem (JObject (fill_unknown kv)) ''Customer'' = Inr c"
    "format_value e c = field_value e kv ''Customer''"
    "getitem (JObject (fill_unknown kv)) ''Description'' = Inr d"
    "format_value e d = field_value e kv ''Description''"
    using getitem_fill_unknown [of "''Part Number''" kv e]
      getitem_fill_unknown [of "''Customer''" kv e]
      getitem_fill_unknown [of "''Description''" kv e]
    by (auto simp: required_fields_def)
  then show ?thesis
    by (simp add: format_filename_def then_do_def del: getitem.simps)
qed

text \<open>A value that tests true and is not a dictionary makes lines 173-179 raise.\<close>

lemma missing_fields_of_sequence:
  assumes "\<And>field. field_is_missing d field = Inl TypeError \<or> field_is_missing d field = Inr True"
  shows "missing_fields_of d flds = Inl TypeError \<or> missing_fields_of d flds = Inr flds"
proof (induction flds)
  case Nil
  show ?case by simp
next
  case (Cons field flds)
  with assms [of field] show ?case by (auto simp: then_do_def)
qed

lemma non_dict_raises:
  assumes "truthy d" and "\<And>kv. d \<noteq> JObject kv" and "st ! r = d"
  shows "then_do (missing_fields_of d required_fields)
           (\<lambda>missing_fields. then_do (set_unknown r missing_fields st) (g missing_fields))
         = Inl TypeError"
proof (cases d)
  case JNull
  with assms(1) show ?thesis by simp
next
  case (JBool b)
  then show ?thesis by (simp add: required_fields_def field_is_missing_def then_do_def)
next
  case (JNum n)
  then show ?thesis by (simp add: required_fields_def field_is_missing_def then_do_def)
next
  case (JStr s)
  then have "\<And>field. field_is_missing d field = Inl TypeError \<or> field_is_missing d field = Inr True"
    by (simp add: field_is_missing_def then_do_def)
  from missing_fields_of_sequence [OF this, of required_fields] show ?thesis
    using JStr assms(3) by (auto simp: then_do_def required_fields_def)
next
  case (JArray xs)
  then have "\<And>field. field_is_missing d field = Inl TypeError \<or> field_is_missing d field = Inr True"
    by (simp add: field_is_missing_def then_do_def)
  from missing_fields_of_sequence [OF this, of required_fields] show ?thesis
    using JArray assms(3) by (auto simp: then_do_def required_fields_def)
next
  case (JObject kv)
  with assms(2) [of kv] show ?thesis by simp
qed


lemma then_do_return: "then_do (Inr x) f = f x"
  by (simp add: then_do_def)

text \<open>The three courses of an iteration, by the value returned for the file.\<close>

lemma loop_body_falsy:
  assumes "\<not> truthy (extracted e k (api_calls s) f)"
  shows "loop_body e k s f =
     then_do (write_file e (temp_dir s) (name f) (getbuffer f)) (\<lambda>dir1.
       Inr (s\<lparr>temp_dir := dir1,
              results := results s
                @ [\<lparr>original_name = name f, extracted_data = length (store s),
                    new_name = [], status = ''Error: No data extracted''\<rparr>],
              store := store s @ [extracted e k (api_calls s) f],
              api_calls := snd (prompt_claude e f k (api_calls s))\<rparr>))"
proof -
  have pc: "prompt_claude e f k (api_calls s)
              = (Inr (extracted e k (api_calls s) f), snd (prompt_claude e f k (api_calls s)))"
    by (rule prompt_claude_extracted)
  show ?thesis
    unfolding loop_body_def Let_def
    by (subst pc) (simp add: assms then_do_def split: sum.splits)
qed

lemma loop_body_non_dict:
  assumes "truthy (extracted e k (api_calls s) f)"
    and "\<And>kv. extracted e k (api_calls s) f \<noteq> JObject kv"
  shows "loop_body e k s f =
     then_do (write_file e (temp_dir s) (name f) (getbuffer f)) (\<lambda>dir1. Inl TypeError)"
proof -
  have pc: "prompt_claude e f k (api_calls s)
              = (Inr (extracted e k (api_calls s) f), snd (prompt_claude e f k (api_calls s)))"
    by (rule prompt_claude_extracted)
  have nth: "(store s @ [extracted e k (api_calls s) f]) ! length (store s)
               = extracted e k (api_calls s) f"
    by simp
  show ?thesis
    unfolding loop_body_def Let_def
    apply (subst pc)
    apply (simp only: prod.case then_do_return nth_append_length assms(1) if_True)
    apply (rule arg_cong [where f = "then_do (write_file e (temp_dir s) (name f) (getbuffer f))"])
    apply (rule ext)
    apply (rule non_dict_raises [OF assms(1) assms(2) nth])
    done
qed

lemma loop_body_dict:
  assumes "extracted e k (api_calls s) f = JObject kv" and "kv \<noteq> []"
  shows "loop_body e k s f =
     then_do (write_file e (temp_dir s) (name f) (getbuffer f)) (\<lambda>dir1.
     then_do (rename e dir1 (name f) (new_filename_of e kv)) (\<lambda>dir2.
     then_do (zip_write (zip_file s) dir2 (new_filename_of e kv) (new_filename_of e kv))
       (\<lambda>zip2.
       Inr (s\<lparr>temp_dir := dir2, zip_file := zip2,
              results := results s
                @ [\<lparr>original_name = name f, extracted_data = length (store s),
                    new_name = new_filename_of e kv, status = status_of_dict kv\<rparr>],
              store := store s @ [JObject (fill_unknown kv)],
              api_calls := snd (prompt_claude e f k (api_calls s))\<rparr>))))"
proof -
  have pc: "prompt_claude e f k (api_calls s)
              = (Inr (JObject kv), snd (prompt_claude e f k (api_calls s)))"
    using prompt_claude_extracted [of e f k "api_calls s"] by (simp add: assms(1))
  have su: "set_unknown (length (store s)) (filter (is_missing kv) required_fields)
              (store s @ [JObject kv]) = Inr (store s @ [JObject (fill_unknown kv)])"
    by (subst set_unknown_dict [where kv = kv]) (simp_all add: fill_unknown_def)
  show ?thesis
    unfolding loop_body_def Let_def
    apply (subst pc)
    apply (simp add: assms(2) missing_fields_of_dict su format_filename_fill_unknown
        new_filename_of_def status_of_dict_def then_do_def
        split: sum.splits del: set_unknown.simps fold_simps)
    done
qed


lemma rename_Inr:
  "rename e dir src dst = Inr dir2 \<Longrightarrow> dir src = Some data \<Longrightarrow> dir2 dst = Some data"
  by (auto simp: rename_def split: option.splits if_splits)

text \<open>What an iteration that returns has done.\<close>

lemma loop_body_Inr:
  assumes "loop_body e k s f = Inr s'"
  shows "(truthy (extracted e k (api_calls s) f)
            \<longrightarrow> (\<exists>kv. extracted e k (api_calls s) f = JObject kv))
     \<and> results s' = results s
           @ [result_for e f (length (store s)) (extracted e k (api_calls s) f)]
     \<and> zip_file s' = zip_file s @ entries_for e f (extracted e k (api_calls s) f)
     \<and> store s' = store s @ [stored (extracted e k (api_calls s) f)]
     \<and> api_calls s' = snd (prompt_claude e f k (api_calls s))
     \<and> (truthy (extracted e k (api_calls s) f)
            \<longrightarrow> temp_dir s' (new_filename_of e (the_dict (extracted e k (api_calls s) f)))
                  = Some (getbuffer f))"
proof -
  define d where "d = extracted e k (api_calls s) f"
  show ?thesis
  proof (cases "truthy d")
    case False
    with assms show ?thesis
      unfolding d_def
      by (auto simp: loop_body_falsy then_do_def result_for_def entries_for_def stored_def
          split: sum.splits)
  next
    case True
    have "\<exists>kv. d = JObject kv"
    proof (rule ccontr)
      assume "\<not> (\<exists>kv. d = JObject kv)"
      then have "\<And>kv. extracted e k (api_calls s) f \<noteq> JObject kv"
        by (simp add: d_def)
      from loop_body_non_dict [OF True [unfolded d_def] this] assms show False
        by (simp add: then_do_def split: sum.splits)
    qed
    then obtain kv where kv: "extracted e k (api_calls s) f = JObject kv"
      by (auto simp: d_def)
    with True have ne: "kv \<noteq> []" by (simp add: d_def)
    from assms obtain dir1 dir2
      where w: "write_file e (temp_dir s) (name f) (getbuffer f) = Inr dir1"
        and r: "rename e dir1 (name f) (new_filename_of e kv) = Inr dir2"
      unfolding loop_body_dict [OF kv ne]
      by (auto simp: then_do_def split: sum.splits)
    from w have "dir1 (name f) = Some (getbuffer f)"
      by (auto simp: write_file_def split: option.splits)
    from rename_Inr [OF r this]
    have present: "dir2 (new_filename_of e kv) = Some (getbuffer f)" .
    from assms show ?thesis
      unfolding loop_body_dict [OF kv ne]
      by (simp add: w r present kv ne then_do_def zip_write_def result_for_def entries_for_def
          stored_def the_dict_def)
         (auto simp: present)
  qed
qed

section \<open>The whole batch\<close>

lemma length_extractions [simp]: "length (extractions e k n fs) = length fs"
  by (induction fs arbitrary: n) auto

lemma for_loop_Inr:
  assumes "for_loop e k s fs = Inr s'"
  shows "(\<forall>i<length fs. truthy (extractions e k (api_calls s) fs ! i)
            \<longrightarrow> (\<exists>kv. extractions e k (api_calls s) fs ! i = JObject kv))
     \<and> results s' = results s
          @ map (\<lambda>i. result_for e (fs ! i) (length (store s) + i)
                        (extractions e k (api_calls s) fs ! i)) [0..<length fs]
     \<and> zip_file s' = zip_file s
          @ concat (map (\<lambda>i. entries_for e (fs ! i) (extractions e k (api_calls s) fs ! i))
                      [0..<length fs])
     \<and> store s' = store s @ map stored (extractions e k (api_calls s) fs)
     \<and> api_calls s' = calls_after e k (api_calls s) fs"
  using assms
proof (induction fs arbitrary: s)
  case Nil
  then show ?case by simp
next
  case (Cons f fs)
  from Cons.prems obtain s1 where s1: "loop_body e k s f = Inr s1"
    and rest: "for_loop e k s1 fs = Inr s'"
    by (auto simp: then_do_def split: sum.splits)
  from loop_body_Inr [OF s1]
  have d1: "truthy (extracted e k (api_calls s) f)
            \<longrightarrow> (\<exists>kv. extracted e k (api_calls s) f = JObject kv)"
    and r1: "results s1 = results s
               @ [result_for e f (length (store s)) (extracted e k (api_calls s) f)]"
    and z1: "zip_file s1 = zip_file s @ entries_for e f (extracted e k (api_calls s) f)"
    and st1: "store s1 = store s @ [stored (extracted e k (api_calls s) f)]"
    and c1: "api_calls s1 = snd (prompt_claude e f k (api_calls s))"
    by blast+
  from Cons.IH [OF rest]
  have d': "\<forall>i<length fs. truthy (extractions e k (api_calls s1) fs ! i)
            \<longrightarrow> (\<exists>kv. extractions e k (api_calls s1) fs ! i = JObject kv)"
    and r': "results s' = results s1
          @ map (\<lambda>i. result_for e (fs ! i) (length (store s1) + i)
                        (extractions e k (api_calls s1) fs ! i)) [0..<length fs]"
    and z': "zip_file s' = zip_file s1
          @ concat (map (\<lambda>i. entries_for e (fs ! i) (extractions e k (api_calls s1) fs ! i))
                      [0..<length fs])"
    and st': "store s' = store s1 @ map stored (extractions e k (api_calls s1) fs)"
    and c': "api_calls s' = calls_after e k (api_calls s1) fs"
    by blast+
  have "\<forall>i<length (f # fs). truthy (extractions e k (api_calls s) (f # fs) ! i)
            \<longrightarrow> (\<exists>kv. extractions e k (api_calls s) (f # fs) ! i = JObject kv)"
  proof (intro allI impI)
    fix i assume "i < length (f # fs)" "truthy (extractions e k (api_calls s) (f # fs) ! i)"
    then show "\<exists>kv. extractions e k (api_calls s) (f # fs) ! i = JObject kv"
      using d1 d' by (cases i) (simp_all add: c1)
  qed
  moreover have "results s' = results s
          @ map (\<lambda>i. result_for e ((f # fs) ! i) (length (store s) + i)
                        (extractions e k (api_calls s) (f # fs) ! i)) [0..<length (f # fs)]"
    by (simp add: r' r1 st1 c1 map_upt_Suc del: upt_Suc)
  moreover have "zip_file s' = zip_file s
          @ concat (map (\<lambda>i. entries_for e ((f # fs) ! i)
                               (extractions e k (api_calls s) (f # fs) ! i))
                      [0..<length (f # fs)])"
    by (simp add: z' z1 c1 map_upt_Suc del: upt_Suc)
  moreover have "store s' = store s @ map stored (extractions e k (api_calls s) (f # fs))"
    by (simp add: st' st1 c1)
  moreover have "api_calls s' = calls_after e k (api_calls s) (f # fs)"
    by (simp add: c' c1)
  ultimately show ?case by blast
qed

text \<open>What a batch that returns has returned.\<close>

lemma process_pdfs_Inr:
  assumes "process_pdfs e fs k = Inr (Some (z, rs, st))"
  shows "fs \<noteq> []"
    and "\<forall>i<length fs. truthy (extractions e k 0 fs ! i)
            \<longrightarrow> (\<exists>kv. extractions e k 0 fs ! i = JObject kv)"
    and "z = concat (map (\<lambda>i. entries_for e (fs ! i) (extractions e k 0 fs ! i))
                          [0..<length fs])"
    and "rs = map (\<lambda>i. result_for e (fs ! i) i (extractions e k 0 fs ! i)) [0..<length fs]"
    and "st = map stored (extractions e k 0 fs)"
proof -
  from assms show ne: "fs \<noteq> []"
    by (auto simp: process_pdfs_def split: if_splits)
  with assms obtain s' where s': "for_loop e k initial_state fs = Inr s'"
    and out: "z = zip_file s'" "rs = results s'" "st = store s'"
    by (auto simp: process_pdfs_def then_do_def split: sum.splits)
  from for_loop_Inr [OF s'] out
  show "\<forall>i<length fs. truthy (extractions e k 0 fs ! i)
            \<longrightarrow> (\<exists>kv. extractions e k 0 fs ! i = JObject kv)"
    and "z = concat (map (\<lambda>i. entries_for e (fs ! i) (extractions e k 0 fs ! i))
                          [0..<length fs])"
    and "rs = map (\<lambda>i. result_for e (fs ! i) i (extractions e k 0 fs ! i)) [0..<length fs]"
    and "st = map stored (extractions e k 0 fs)"
    by (simp_all add: initial_state_def)
qed

text \<open>
  Claim C1. A batch that returns an archive and a results sequence returns exactly one
  result per uploaded file, in the order of the upload, whatever the outcome for each
  file. (A batch does not return when an iteration raises: on a response that parses to a
  value other than a dictionary, or on a name the file system refuses. For an empty upload
  \<open>process_pdfs\<close> returns \<open>None\<close>.)
\<close>

theorem process_pdfs_one_result_per_file:
  assumes "process_pdfs e uploaded_files api_key = Inr (Some (z, rs, st))"
  shows "length rs = length uploaded_files
       \<and> map original_name rs = map name uploaded_files"
proof -
  have "map original_name
          (map (\<lambda>i. result_for e (uploaded_files ! i) i
                       (extractions e api_key 0 uploaded_files ! i))
             [0..<length uploaded_files])
        = map name uploaded_files"
    by (rule nth_equalityI) (simp_all add: result_for_def)
  then show ?thesis
    by (simp add: process_pdfs_Inr(4) [OF assms])
qed

lemma status_of_dict_not_error [simp]: "status_of_dict kv \<noteq> ''Error: No data extracted''"
  by (simp add: status_of_dict_def)

lemma error_not_success [simp]:
  "''Error: No data extracted'' \<noteq> ''Success''"
  "''Error: No data extracted'' \<noteq> ''Partial success (missing: '' @ m @ '')''"
  by simp_all

lemma sanitize_filename_Nil [simp]: "sanitize_filename s = [] \<longleftrightarrow> s = []"
  by (simp add: sanitize_filename_eq_spec sanitize_spec_def)

lemma new_filename_of_not_Nil [simp]: "new_filename_of e kv \<noteq> []"
  by (simp add: new_filename_of_def)

lemma entry_in_archive:
  assumes "i < length fs" and "truthy (ds ! i)"
  shows "(new_filename_of e (the_dict (ds ! i)), getbuffer (fs ! i))
           \<in> set (concat (map (\<lambda>i. entries_for e (fs ! i) (ds ! i)) [0..<length fs]))"
  using assms by (auto simp: entries_for_def intro!: bexI [of _ i])

lemma archive_names_not_Nil:
  "[] \<notin> fst ` set (concat (map (\<lambda>i. entries_for e (fs ! i) (ds ! i)) [0..<n]))"
  by (auto simp: entries_for_def new_filename_of_not_Nil [THEN not_sym] split: if_splits)

lemma map_filter_concat:
  "map g (filter P xs) = concat (map (\<lambda>x. if P x then [g x] else []) xs)"
  by (induction xs) auto

lemma archive_of_results:
  "concat (map (\<lambda>i. entries_for e (fs ! i) (ds ! i)) [0..<length fs])
     = map (\<lambda>(f, r). (new_name r, getbuffer f))
         (filter (\<lambda>(f, r). status r \<noteq> ''Error: No data extracted'')
            (zip fs (map (\<lambda>i. result_for e (fs ! i) i (ds ! i)) [0..<length fs])))"
proof -
  have z: "zip fs (map (\<lambda>i. result_for e (fs ! i) i (ds ! i)) [0..<length fs])
             = map (\<lambda>i. (fs ! i, result_for e (fs ! i) i (ds ! i))) [0..<length fs]"
    by (rule nth_equalityI) simp_all
  have pointwise: "\<And>i. entries_for e (fs ! i) (ds ! i)
      = (if status (result_for e (fs ! i) i (ds ! i)) \<noteq> ''Error: No data extracted''
         then [(new_name (result_for e (fs ! i) i (ds ! i)), getbuffer (fs ! i))] else [])"
    by (simp add: result_for_def entries_for_def)
  show ?thesis
    unfolding z map_filter_concat
    by (simp add: comp_def pointwise cong: if_cong)
qed

text \<open>
  Claim C2. In a batch that returns, a file for which \<open>prompt_claude\<close> returns the empty
  dictionary (or any other value that tests false) gets the status
  \<open>Error: No data extracted\<close> and the empty new name, and no archive entry carries that
  name; a file whose status is \<open>Success\<close> or a \<open>Partial success\<close> has its bytes in the
  archive under its new name. The archive is exactly the sequence of the files that did not
  end in the error status, each under its new name.
\<close>

theorem empty_record_is_error_and_not_archived:
  assumes "process_pdfs e uploaded_files api_key = Inr (Some (z, rs, st))"
  shows "(\<forall>i<length uploaded_files.
           \<not> truthy (extractions e api_key 0 uploaded_files ! i) \<longrightarrow>
             status (rs ! i) = ''Error: No data extracted'' \<and> new_name (rs ! i) = []
             \<and> new_name (rs ! i) \<notin> fst ` set z)
     \<and> (\<forall>i<length uploaded_files.
           status (rs ! i) = ''Success''
             \<or> (\<exists>m. status (rs ! i) = ''Partial success (missing: '' @ m @ '')'') \<longrightarrow>
             (new_name (rs ! i), getbuffer (uploaded_files ! i)) \<in> set z)
     \<and> z = map (\<lambda>(f, r). (new_name r, getbuffer f))
             (filter (\<lambda>(f, r). status r \<noteq> ''Error: No data extracted'')
                (zip uploaded_files rs))"
proof -
  let ?ds = "extractions e api_key 0 uploaded_files"
  let ?z = "concat (map (\<lambda>i. entries_for e (uploaded_files ! i) (?ds ! i))
                      [0..<length uploaded_files])"
  let ?rs = "map (\<lambda>i. result_for e (uploaded_files ! i) i (?ds ! i))
               [0..<length uploaded_files]"
  have z: "z = ?z" and rs: "rs = ?rs"
    by (rule process_pdfs_Inr(3) [OF assms], rule process_pdfs_Inr(4) [OF assms])
  have a: "\<forall>i<length uploaded_files. \<not> truthy (?ds ! i) \<longrightarrow>
             status (?rs ! i) = ''Error: No data extracted'' \<and> new_name (?rs ! i) = []
             \<and> new_name (?rs ! i) \<notin> fst ` set ?z"
    using archive_names_not_Nil [of e uploaded_files ?ds "length uploaded_files"]
    by (simp add: result_for_def)
  have b: "\<forall>i<length uploaded_files.
           status (?rs ! i) = ''Success''
             \<or> (\<exists>m. status (?rs ! i) = ''Partial success (missing: '' @ m @ '')'') \<longrightarrow>
             (new_name (?rs ! i), getbuffer (uploaded_files ! i)) \<in> set ?z"
  proof (intro allI impI)
    fix i assume i: "i < length uploaded_files"
      and s: "status (?rs ! i) = ''Success''
             \<or> (\<exists>m. status (?rs ! i) = ''Partial success (missing: '' @ m @ '')'')"
    from i s have "truthy (?ds ! i)"
      by (cases "truthy (?ds ! i)") (auto simp: result_for_def)
    with i entry_in_archive [of i uploaded_files ?ds e]
    show "(new_name (?rs ! i), getbuffer (uploaded_files ! i)) \<in> set ?z"
      by (simp add: result_for_def)
  qed
  have c: "?z = map (\<lambda>(f, r). (new_name r, getbuffer f))
             (filter (\<lambda>(f, r). status r \<noteq> ''Error: No data extracted'')
                (zip uploaded_files ?rs))"
    by (rule archive_of_results)
  from a b c show ?thesis unfolding z rs by blast
qed

lemma is_missing_iff:
  "is_missing kv field \<longleftrightarrow> (\<forall>v. map_of kv field = Some v \<longrightarrow> \<not> truthy v)"
  by (simp add: is_missing_def split: option.splits)

lemma is_missing_empty_string: "map_of kv field = Some (JStr []) \<Longrightarrow> is_missing kv field"
  by (simp add: is_missing_def)

lemma field_value_missing: "is_missing kv field \<Longrightarrow> field_value e kv field = ''Unknown''"
  by (simp add: is_missing_def field_value_def split: option.splits if_splits)

lemma field_value_string:
  "map_of kv field = Some (JStr s) \<Longrightarrow> s \<noteq> [] \<Longrightarrow> field_value e kv field = s"
  by (simp add: field_value_def format_value_def)

text \<open>
  Claim C3. In a batch that returns, when the dictionary returned for a file has the three
  fields present as strings that are not empty, the new name is the sanitized
  \<open>{Part Number} {Customer} {Description}.pdf\<close>, the status is \<open>Success\<close>, and the file's
  bytes are in the archive under the new name.
\<close>

theorem all_fields_present_is_success:
  assumes "process_pdfs e uploaded_files api_key = Inr (Some (z, rs, st))"
    and "i < length uploaded_files"
    and "extractions e api_key 0 uploaded_files ! i = JObject kv"
    and "map_of kv ''Customer'' = Some (JStr customer)"
    and "map_of kv ''Part Number'' = Some (JStr part_number)"
    and "map_of kv ''Description'' = Some (JStr description)"
    and "customer \<noteq> []" and "part_number \<noteq> []" and "description \<noteq> []"
  shows "new_name (rs ! i)
         = sanitize_filename (part_number @ '' '' @ customer @ '' '' @ description @ ''.pdf'')
     \<and> status (rs ! i) = ''Success''
     \<and> (new_name (rs ! i), getbuffer (uploaded_files ! i)) \<in> set z"
proof -
  let ?ds = "extractions e api_key 0 uploaded_files"
  from assms(3,4) have d: "truthy (?ds ! i)" by auto
  have m: "filter (is_missing kv) required_fields = []"
    using assms(4-9) by (simp add: required_fields_def is_missing_def)
  have n: "new_filename_of e kv
         = sanitize_filename (part_number @ '' '' @ customer @ '' '' @ description @ ''.pdf'')"
    using assms(4-9) by (simp add: new_filename_of_def field_value_string)
  show ?thesis
    using assms(2,3) d m n entry_in_archive [OF assms(2) d, of e]
    by (simp add: process_pdfs_Inr(3,4) [OF assms(1)] result_for_def status_of_dict_def
        the_dict_def)
qed

text \<open>
  Claim C4. In a batch that returns, when the dictionary returned for a file is not empty
  and some required field is absent or empty, each such field reads \<open>Unknown\<close> in the
  composed name while a field holding a string that is not empty contributes that string,
  and the status is \<open>Partial success (missing: ...)\<close> with the names of the missing fields
  joined by a comma and a space; when only the description is missing the status is
  \<open>Partial success (missing: Description)\<close>.
\<close>

theorem missing_fields_are_unknown_and_partial:
  assumes "process_pdfs e uploaded_files api_key = Inr (Some (z, rs, st))"
    and "i < length uploaded_files"
    and "extractions e api_key 0 uploaded_files ! i = JObject kv"
    and "kv \<noteq> []"
    and "is_missing kv ''Customer'' \<or> is_missing kv ''Part Number''
           \<or> is_missing kv ''Description''"
  shows "new_name (rs ! i)
         = sanitize_filename
             (field_value e kv ''Part Number'' @ '' '' @ field_value e kv ''Customer''
              @ '' '' @ field_value e kv ''Description'' @ ''.pdf'')
     \<and> (\<forall>field. is_missing kv field \<longrightarrow> field_value e kv field = ''Unknown'')
     \<and> (\<forall>field s. map_of kv field = Some (JStr s) \<and> s \<noteq> [] \<longrightarrow> field_value e kv field = s)
     \<and> status (rs ! i)
         = ''Partial success (missing: ''
             @ join '', ''
                 (filter (is_missing kv) [''Customer'', ''Part Number'', ''Description''])
             @ '')''
     \<and> (is_missing kv ''Description'' \<and> \<not> is_missing kv ''Customer''
           \<and> \<not> is_missing kv ''Part Number''
          \<longrightarrow> status (rs ! i) = ''Partial success (missing: Description)'')"
proof -
  have m: "filter (is_missing kv) required_fields \<noteq> []"
    using assms(5) by (auto simp: required_fields_def)
  have s: "status_of_dict kv = ''Partial success (missing: ''
             @ join '', ''
                 (filter (is_missing kv) [''Customer'', ''Part Number'', ''Description''])
             @ '')''"
    using m by (simp add: status_of_dict_def required_fields_def)
  have p: "status_of_dict kv = ''Partial success (missing: Description)''"
    if "is_missing kv ''Description''" "\<not> is_missing kv ''Customer''"
       "\<not> is_missing kv ''Part Number''"
    using that by (simp add: s)
  have r: "rs ! i = result_for e (uploaded_files ! i) i (JObject kv)"
    using assms(2,3) by (simp add: process_pdfs_Inr(4) [OF assms(1)])
  show ?thesis
    using assms(4) s p
    by (simp add: r result_for_def the_dict_def new_filename_of_def field_value_missing
        field_value_string)
qed

text \<open>
  Claim C10. In a batch that returns, the fields named in a \<open>Partial success\<close> status are
  those of the list Customer, Part Number, Description that are missing, in that order; two
  files whose dictionaries hold the same pairs in different orders get the same status.
\<close>

theorem missing_fields_in_canonical_order:
  assumes "process_pdfs e uploaded_files api_key = Inr (Some (z, rs, st))"
    and "i < length uploaded_files"
    and "extractions e api_key 0 uploaded_files ! i = JObject kv"
    and "kv \<noteq> []"
  shows "status (rs ! i)
         = (if filter (is_missing kv) [''Customer'', ''Part Number'', ''Description''] = []
            then ''Success''
            else ''Partial success (missing: ''
                   @ join '', ''
                       (filter (is_missing kv) [''Customer'', ''Part Number'', ''Description''])
                   @ '')'')
     \<and> (\<forall>j<length uploaded_files. \<forall>kv'.
           extractions e api_key 0 uploaded_files ! j = JObject kv'
           \<and> distinct (map fst kv) \<and> distinct (map fst kv') \<and> set kv' = set kv
           \<longrightarrow> status (rs ! j) = status (rs ! i))"
proof -
  have same: "status_of_dict kv' = status_of_dict kv \<and> kv' \<noteq> []"
    if "distinct (map fst kv)" "distinct (map fst kv')" "set kv' = set kv" for kv'
  proof -
    from that have "map_of kv' = map_of kv" by (simp add: map_of_inject_set)
    then have "is_missing kv' = is_missing kv" by (auto simp: is_missing_def fun_eq_iff)
    moreover from that(3) assms(4) have "kv' \<noteq> []" by auto
    ultimately show ?thesis by (simp add: status_of_dict_def)
  qed
  have ri: "status (rs ! i) = status_of_dict kv"
    using assms(2,3,4)
    by (simp add: process_pdfs_Inr(4) [OF assms(1)] result_for_def the_dict_def)
  have rj: "status (rs ! j) = status_of_dict kv'"
    if "j < length uploaded_files" "extractions e api_key 0 uploaded_files ! j = JObject kv'"
      "kv' \<noteq> []" for j kv'
    using that
    by (simp add: process_pdfs_Inr(4) [OF assms(1)] result_for_def the_dict_def)
  have "status_of_dict kv
         = (if filter (is_missing kv) [''Customer'', ''Part Number'', ''Description''] = []
            then ''Success''
            else ''Partial success (missing: ''
                   @ join '', ''
                       (filter (is_missing kv) [''Customer'', ''Part Number'', ''Description''])
                   @ '')'')"
    by (simp add: status_of_dict_def required_fields_def)
  moreover have "\<forall>j<length uploaded_files. \<forall>kv'.
           extractions e api_key 0 uploaded_files ! j = JObject kv'
           \<and> distinct (map fst kv) \<and> distinct (map fst kv') \<and> set kv' = set kv
           \<longrightarrow> status (rs ! j) = status (rs ! i)"
    using same rj ri by metis
  ultimately show ?thesis by (simp add: ri)
qed






section \<open>The example run\<close>

lemmas example_defs =
  example_env_def example_service_def example_json_loads_def pdf_def
  acme_text_def no_description_text_def reordered_text_def listed_text_def array_text_def

lemmas run_defs =
  process_pdfs_def initial_state_def loop_body_def prompt_claude_def then_do_def
  try_except_def Let_def write_file_def rename_def zip_write_def format_filename_def
  format_value_def field_is_missing_def required_fields_def sanitize_filename_def
  replace_def invalid_chars_def


lemma example_extractions:
  "extractions example_env ''sk-test'' 0 example_batch =
     [JObject [(''Customer'', JStr ''Acme''), (''Part Number'', JStr ''PN-100''),
               (''Description'', JStr ''Bracket'')],
      JObject [],
      JObject [(''Customer'', JStr ''Acme''), (''Part Number'', JStr ''PN-200''),
               (''Description'', JStr [])],
      JObject [(''Customer'', JStr ''Acme''), (''Part Number'', JStr ''PN-100''),
               (''Description'', JStr ''Bracket'')],
      JObject [(''Description'', JStr []), (''Part Number'', JStr ''PN-7'')],
      JObject [(''Part Number'', JStr ''PN-7''), (''Description'', JStr [])]]"
  by (simp add: example_batch_def extracted_def prompt_claude_def try_except_def then_do_def
      example_defs)

lemma example_run:
  "process_pdfs example_env example_batch ''sk-test'' =
    Inr (Some
       ([(''PN-100 Acme Bracket.pdf'', ''%PDF job1''),
         (''PN-200 Acme Unknown.pdf'', ''%PDF job3''),
         (''PN-100 Acme Bracket.pdf'', ''%PDF job4''),
         (''PN-7 Unknown Unknown.pdf'', ''%PDF job5''),
         (''PN-7 Unknown Unknown.pdf'', ''%PDF job6'')],
        [\<lparr>original_name = ''job1.pdf'', extracted_data = 0,
            new_name = ''PN-100 Acme Bracket.pdf'', status = ''Success''\<rparr>,
         \<lparr>original_name = ''job2.pdf'', extracted_data = 1, new_name = [],
            status = ''Error: No data extracted''\<rparr>,
         \<lparr>original_name = ''job3.pdf'', extracted_data = 2,
            new_name = ''PN-200 Acme Unknown.pdf'',
            status = ''Partial success (missing: Description)''\<rparr>,
         \<lparr>original_name = ''job4.pdf'', extracted_data = 3,
            new_name = ''PN-100 Acme Bracket.pdf'', status = ''Success''\<rparr>,
         \<lparr>original_name = ''job5.pdf'', extracted_data = 4,
            new_name = ''PN-7 Unknown Unknown.pdf'',
            status = ''Partial success (missing: Customer, Description)''\<rparr>,
         \<lparr>original_name = ''job6.pdf'', extracted_data = 5,
            new_name = ''PN-7 Unknown Unknown.pdf'',
            status = ''Partial success (missing: Customer, Description)''\<rparr>],
        [JObject [(''Customer'', JStr ''Acme''), (''Part Number'', JStr ''PN-100''),
          (''Description'', JStr ''Bracket'')],
         JObject [],
         JObject [(''Customer'', JStr ''Acme''), (''Part Number'', JStr ''PN-200''),
          (''Description'', JStr ''Unknown'')],
         JObject [(''Customer'', JStr ''Acme''), (''Part Number'', JStr ''PN-100''),
          (''Description'', JStr ''Bracket'')],
         JObject [(''Description'', JStr ''Unknown''), (''Part Number'', JStr ''PN-7''),
          (''Customer'', JStr ''Unknown'')],
         JObject [(''Part Number'', JStr ''PN-7''), (''Description'', JStr ''Unknown''),
          (''Customer'', JStr ''Unknown'')]]))"
  by (simp add: example_batch_def run_defs example_defs)

text \<open>
  Two batches that do not return: a response that parses to an array raises \<open>TypeError\<close>
  at line 173, and on a file system that does not replace on rename the second of two
  colliding names raises \<open>FileExistsError\<close> at line 188.
\<close>

lemma array_response_raises:
  "process_pdfs example_env [pdf ''job7.pdf'' ''%PDF job7''] ''sk-test'' = Inl TypeError"
  by (simp add: run_defs example_defs)

lemma rename_refused_on_windows:
  "process_pdfs (example_env\<lparr>replaces := False\<rparr>)
     [pdf ''job1.pdf'' ''%PDF job1'', pdf ''job4.pdf'' ''%PDF job4''] ''sk-test''
     = Inl (FileExistsError ''PN-100 Acme Bracket.pdf'')"
  by (simp add: run_defs example_defs)

text \<open>
  Claim C7. The record a result refers to is not always the record \<open>prompt_claude\<close>
  returned: for a document whose description is empty, \<open>prompt_claude\<close> returns the
  description \<open>''''\<close>, yet the dictionary the result refers to, and the table row, read
  \<open>Unknown\<close>. Line 179 writes the placeholder into the very dictionary that line 162 put
  in the result, under a comment (line 177) that announces empty strings.
\<close>

theorem stored_record_differs_from_returned:
  "prompt_claude example_env (pdf ''job3.pdf'' ''%PDF job3'') ''sk-test'' 0
     = (Inr (JObject [(''Customer'', JStr ''Acme''), (''Part Number'', JStr ''PN-200''),
                      (''Description'', JStr [])]),
        1)
   \<and> process_pdfs example_env [pdf ''job3.pdf'' ''%PDF job3''] ''sk-test''
     = Inr (Some ([(''PN-200 Acme Unknown.pdf'', ''%PDF job3'')],
                  [\<lparr>original_name = ''job3.pdf'', extracted_data = 0,
                    new_name = ''PN-200 Acme Unknown.pdf'',
                    status = ''Partial success (missing: Description)''\<rparr>],
                  [JObject [(''Customer'', JStr ''Acme''), (''Part Number'', JStr ''PN-200''),
                            (''Description'', JStr ''Unknown'')]]))
   \<and> results_data
         [JObject [(''Customer'', JStr ''Acme''), (''Part Number'', JStr ''PN-200''),
                   (''Description'', JStr ''Unknown'')]]
         [\<lparr>original_name = ''job3.pdf'', extracted_data = 0,
           new_name = ''PN-200 Acme Unknown.pdf'',
           status = ''Partial success (missing: Description)''\<rparr>]
     = Inr [\<lparr>Original_Filename = ''job3.pdf'', New_Filename = ''PN-200 Acme Unknown.pdf'',
             Status = ''Partial success (missing: Description)'',
             Customer = JStr ''Acme'', Part_Number = JStr ''PN-200'',
             Description = JStr ''Unknown''\<rparr>]"
  by (simp add: run_defs example_defs table_row_of_def)



lemma example_batch_simps:
  "length example_batch = 6"
  "map name example_batch
     = [''job1.pdf'', ''job2.pdf'', ''job3.pdf'', ''job4.pdf'', ''job5.pdf'', ''job6.pdf'']"
  "map getbuffer example_batch
     = [''%PDF job1'', ''%PDF job2'', ''%PDF job3'', ''%PDF job4'', ''%PDF job5'', ''%PDF job6'']"
  by (simp_all add: example_batch_def pdf_def)

lemma example_returns:
  "\<exists>z rs st. process_pdfs example_env example_batch ''sk-test'' = Inr (Some (z, rs, st))"
  using example_run by blast

theorem process_pdfs_one_result_per_file_witness:
  "\<exists>z rs st. process_pdfs example_env example_batch ''sk-test'' = Inr (Some (z, rs, st))
     \<and> length rs = 6
     \<and> map original_name rs
         = [''job1.pdf'', ''job2.pdf'', ''job3.pdf'', ''job4.pdf'', ''job5.pdf'', ''job6.pdf'']"
proof -
  from example_returns obtain z rs st
    where run: "process_pdfs example_env example_batch ''sk-test'' = Inr (Some (z, rs, st))"
    by blast
  from process_pdfs_one_result_per_file [OF run]
  have "length rs = 6 \<and> map original_name rs
         = [''job1.pdf'', ''job2.pdf'', ''job3.pdf'', ''job4.pdf'', ''job5.pdf'', ''job6.pdf'']"
    by (simp add: example_batch_simps)
  with run show ?thesis
    by (intro exI [of _ z] exI [of _ rs] exI [of _ st]) simp
qed

theorem empty_record_is_error_and_not_archived_witness:
  "\<exists>z rs st. process_pdfs example_env example_batch ''sk-test'' = Inr (Some (z, rs, st))
     \<and> extractions example_env ''sk-test'' 0 example_batch ! 1 = JObject []
     \<and> status (rs ! 1) = ''Error: No data extracted'' \<and> new_name (rs ! 1) = []
     \<and> z = map (\<lambda>(f, r). (new_name r, getbuffer f))
             (filter (\<lambda>(f, r). status r \<noteq> ''Error: No data extracted'')
                (zip example_batch rs))"
proof -
  from example_returns obtain z rs st
    where run: "process_pdfs example_env example_batch ''sk-test'' = Inr (Some (z, rs, st))"
    by blast
  have e1: "extractions example_env ''sk-test'' 0 example_batch ! 1 = JObject []"
    by (simp add: example_extractions)
  from empty_record_is_error_and_not_archived [OF run]
  have err: "\<forall>i<length example_batch.
           \<not> truthy (extractions example_env ''sk-test'' 0 example_batch ! i) \<longrightarrow>
             status (rs ! i) = ''Error: No data extracted'' \<and> new_name (rs ! i) = []
             \<and> new_name (rs ! i) \<notin> fst ` set z"
    and arch: "z = map (\<lambda>(f, r). (new_name r, getbuffer f))
             (filter (\<lambda>(f, r). status r \<noteq> ''Error: No data extracted'')
                (zip example_batch rs))"
    by blast+
  from err e1 have "status (rs ! 1) = ''Error: No data extracted'' \<and> new_name (rs ! 1) = []"
    by (simp add: example_batch_simps)
  with run e1 arch show ?thesis
    by (intro exI [of _ z] exI [of _ rs] exI [of _ st]) simp
qed

theorem all_fields_present_is_success_witness:
  "\<exists>z rs st. process_pdfs example_env example_batch ''sk-test'' = Inr (Some (z, rs, st))
     \<and> new_name (rs ! 0) = ''PN-100 Acme Bracket.pdf''
     \<and> status (rs ! 0) = ''Success''
     \<and> (''PN-100 Acme Bracket.pdf'', ''%PDF job1'') \<in> set z"
proof -
  let ?kv = "[(''Customer'', JStr ''Acme''), (''Part Number'', JStr ''PN-100''),
              (''Description'', JStr ''Bracket'')]"
  from example_returns obtain z rs st
    where run: "process_pdfs example_env example_batch ''sk-test'' = Inr (Some (z, rs, st))"
    by blast
  have d: "extractions example_env ''sk-test'' 0 example_batch ! 0 = JObject ?kv"
    by (simp add: example_extractions)
  have s: "sanitize_filename (''PN-100'' @ '' '' @ ''Acme'' @ '' '' @ ''Bracket'' @ ''.pdf'')
             = ''PN-100 Acme Bracket.pdf''"
    by (simp add: sanitize_filename_def replace_def invalid_chars_def)
  have b: "getbuffer (example_batch ! 0) = ''%PDF job1''"
    by (simp add: example_batch_def pdf_def)
  from all_fields_present_is_success
    [OF run _ d, of "''Acme''" "''PN-100''" "''Bracket''"]
  have "new_name (rs ! 0) = ''PN-100 Acme Bracket.pdf''
     \<and> status (rs ! 0) = ''Success''
     \<and> (''PN-100 Acme Bracket.pdf'', ''%PDF job1'') \<in> set z"
    unfolding s b by (auto simp: example_batch_simps)
  with run show ?thesis
    by (intro exI [of _ z] exI [of _ rs] exI [of _ st]) simp
qed

theorem missing_fields_are_unknown_and_partial_witness:
  "\<exists>z rs st. process_pdfs example_env example_batch ''sk-test'' = Inr (Some (z, rs, st))
     \<and> new_name (rs ! 2) = ''PN-200 Acme Unknown.pdf''
     \<and> status (rs ! 2) = ''Partial success (missing: Description)''"
proof -
  let ?kv = "[(''Customer'', JStr ''Acme''), (''Part Number'', JStr ''PN-200''),
              (''Description'', JStr [])]"
  from example_returns obtain z rs st
    where run: "process_pdfs example_env example_batch ''sk-test'' = Inr (Some (z, rs, st))"
    by blast
  have d: "extractions example_env ''sk-test'' 0 example_batch ! 2 = JObject ?kv"
    by (simp add: example_extractions)
  have m: "is_missing ?kv ''Description''" "\<not> is_missing ?kv ''Customer''"
    "\<not> is_missing ?kv ''Part Number''"
    by (simp_all add: is_missing_def)
  have v: "field_value example_env ?kv ''Part Number'' = ''PN-200''"
    "field_value example_env ?kv ''Customer'' = ''Acme''"
    "field_value example_env ?kv ''Description'' = ''Unknown''"
    by (simp_all add: field_value_def format_value_def)
  have s: "sanitize_filename (''PN-200'' @ '' '' @ ''Acme'' @ '' '' @ ''Unknown'' @ ''.pdf'')
             = ''PN-200 Acme Unknown.pdf''"
    by (simp add: sanitize_filename_def replace_def invalid_chars_def)
  from missing_fields_are_unknown_and_partial [OF run _ d]
  have "new_name (rs ! 2) = ''PN-200 Acme Unknown.pdf''
     \<and> status (rs ! 2) = ''Partial success (missing: Description)''"
    unfolding v s by (simp add: m example_batch_simps)
  with run show ?thesis
    by (intro exI [of _ z] exI [of _ rs] exI [of _ st]) simp
qed

theorem missing_fields_in_canonical_order_witness:
  "\<exists>z rs st. process_pdfs example_env example_batch ''sk-test'' = Inr (Some (z, rs, st))
     \<and> status (rs ! 4) = ''Partial success (missing: Customer, Description)''
     \<and> status (rs ! 5) = ''Partial success (missing: Customer, Description)''"
proof -
  let ?kv = "[(''Description'', JStr []), (''Part Number'', JStr ''PN-7'')]"
  let ?kv' = "[(''Part Number'', JStr ''PN-7''), (''Description'', JStr [])]"
  from example_returns obtain z rs st
    where run: "process_pdfs example_env example_batch ''sk-test'' = Inr (Some (z, rs, st))"
    by blast
  have d: "extractions example_env ''sk-test'' 0 example_batch ! 4 = JObject ?kv"
    by (simp add: example_extractions)
  have d5: "extractions example_env ''sk-test'' 0 example_batch ! 5 = JObject ?kv'"
    by (simp add: example_extractions)
  have m: "filter (is_missing ?kv) [''Customer'', ''Part Number'', ''Description'']
             = [''Customer'', ''Description'']"
    by (simp add: is_missing_def)
  from missing_fields_in_canonical_order [OF run _ d]
  have st4: "status (rs ! 4) = ''Partial success (missing: Customer, Description)''"
    and same: "\<forall>j<length example_batch. \<forall>kv'.
           extractions example_env ''sk-test'' 0 example_batch ! j = JObject kv'
           \<and> distinct (map fst ?kv) \<and> distinct (map fst kv') \<and> set kv' = set ?kv
           \<longrightarrow> status (rs ! j) = status (rs ! 4)"
    unfolding m by (simp_all add: example_batch_simps)
  from same [rule_format, of 5 ?kv'] have "status (rs ! 5) = status (rs ! 4)"
    by (auto simp: d5 example_batch_simps)
  with run st4 show ?thesis
    by (intro exI [of _ z] exI [of _ rs] exI [of _ st]) simp
qed


end
